theory Spec2Isabelle
  imports Main
begin

section \<open>Data model\<close>

text \<open>
  The repository is a storage-backed account module (\<open>users\<close>,
  \<open>custom_weights\<close>) and a company module (\<open>company_partner_permissions\<close>,
  the company directory). Tables are lists of rows in table order. Nullable
  columns are options; JavaScript \<open>null\<close> and \<open>undefined\<close> are both \<open>None\<close>.
  Timestamps are milliseconds (the value a \<open>moment\<close> compares by).
\<close>

datatype error =
    AccountNotFound      \<comment> \<open>\<open>Error("Username cannot be found")\<close>\<close>
  | AccountDeactivated   \<comment> \<open>\<open>Error("Your accout has been deactivated")\<close>\<close>
  | TenantTermExpired    \<comment> \<open>\<open>Error("Your company subscription has expired")\<close>\<close>
  | InvalidCredential    \<comment> \<open>\<open>Error("Invalid password")\<close>\<close>
  | TenantLookupFailed   \<comment> \<open>what \<open>apiClient.getCompany\<close> rejects with\<close>
  | TypeError            \<comment> \<open>raised by the runtime: property read on \<open>undefined\<close>/\<open>null\<close>\<close>
  | SyntaxError          \<comment> \<open>raised by \<open>JSON.parse\<close>\<close>

text \<open>A row of table \<open>users\<close>.\<close>

record user_row =
  col_id :: nat
  col_email :: string
  encrypted_password :: "string option"
  terms_accepted_at :: "int option"
  col_role :: string
  col_company_id :: "nat option"
  created_by_id :: "nat option"
  col_status :: string
  col_notice_email_sent :: "bool option"
  col_login_types :: "string option"
  temp_password :: "string option"
  temp_password_expire_time :: "int option"

text \<open>
  The value held by property \<open>login_types\<close> of a user object: nothing, the
  JSON text read from storage, or a JavaScript array (what
  \<open>updateUserLoginTypes\<close> puts into the object it returns).
\<close>

datatype login_types_value = LTNull | LTText string | LTArray "string list"

text \<open>The object built by \<open>toUser\<close>.\<close>

record user =
  user_id :: nat
  email :: string
  termsAcceptedAt :: "int option"
  role :: string
  company_id :: "nat option"
  status :: string
  notice_email_sent :: "bool option"
  login_types :: login_types_value

record company =
  company_ident :: nat
  company_name :: string
  max_active_users :: nat
  end_date :: int
  notice_date :: int

text \<open>A row of table \<open>custom_weights\<close>. The six weights are only stored and copied.\<close>

record weights_row =
  w_user_id :: nat
  property_type :: string
  safety :: int
  trnsprt :: int
  vitalty :: int
  economc :: int
  sptl_dm :: int
  amenity :: int

text \<open>A row of table \<open>company_partner_permissions\<close>.\<close>

record permission_row =
  perm_company_id :: nat
  partner :: string

text \<open>
  The storage behind \<open>connection\<close>. \<open>accesses\<close> counts the queries that were
  executed; \<open>next_user_id\<close> is the sequence behind \<open>users.id\<close>.
\<close>

record db =
  users :: "user_row list"
  custom_weights :: "weights_row list"
  company_partner_permissions :: "permission_row list"
  accesses :: nat
  next_user_id :: nat

text \<open>
  What the modules import and this development does not have the code of:
  \<open>bcryptjs\<close> (\<open>hash\<close>, \<open>compare\<close>), \<open>helpers/auth\<close> (\<open>statusActive\<close>,
  \<open>companyTermActive\<close>, which reads the clock, here its first argument),
  \<open>helpers/presence\<close> (\<open>isBlank\<close>), the company directory client
  (\<open>apiClient.getCompany("id", _)\<close>, a remote call that answers with a company
  or with none, \<open>Inr\<close>, or is rejected, \<open>Inl\<close>), \<open>helpers/asArray\<close>, the
  runtime's \<open>JSON.parse\<close> (\<open>None\<close> is its SyntaxError), \<open>JSON.stringify\<close> and
  \<open>String.prototype.toLowerCase\<close>, and the column defaults of table
  \<open>users\<close>. They are parameters of every operation; \<open>'j\<close> is the type of
  parsed JSON values.
\<close>

record 'j env =
  hash :: "string \<Rightarrow> nat \<Rightarrow> string"
  compare :: "string \<Rightarrow> string \<Rightarrow> bool"
  statusActive :: "string \<Rightarrow> bool"
  companyTermActive :: "int \<Rightarrow> company option \<Rightarrow> bool"
  isBlank :: "nat option \<Rightarrow> bool"
  apiGetCompany :: "nat option \<Rightarrow> error + company option"
  asArray :: "'j \<Rightarrow> string list"
  JSON_parse :: "string \<Rightarrow> 'j option"
  JSON_stringify :: "string list \<Rightarrow> string"
  toLowerCase :: "string \<Rightarrow> string"
  users_defaults :: user_row

section \<open>Runtime primitives\<close>

text \<open>
  \<open>Array.prototype.toString\<close> on an array of strings: the elements joined by
  commas. \<open>JSON.parse\<close> applies it when it is handed an array.
\<close>

fun array_toString :: "string list \<Rightarrow> string" where
  "array_toString [] = []"
| "array_toString [x] = x"
| "array_toString (x # y # ys) = x @ '','' @ array_toString (y # ys)"

section \<open>Storage queries\<close>

definition executed :: "db \<Rightarrow> db" where
  "executed d = d\<lparr>accesses := Suc (accesses d)\<rparr>"

text \<open>\<open>select ... from users where email = e limit 1\<close>\<close>

definition select_users_where_email :: "db \<Rightarrow> string \<Rightarrow> user_row list \<times> db" where
  "select_users_where_email d e =
     (take 1 (filter (\<lambda>r. col_email r = e) (users d)), executed d)"

text \<open>\<open>connection("users").where("id", i).first()\<close>\<close>

definition first_user_where_id :: "db \<Rightarrow> nat \<Rightarrow> user_row option \<times> db" where
  "first_user_where_id d i =
     (case filter (\<lambda>r. col_id r = i) (users d) of
        [] \<Rightarrow> None
      | r # _ \<Rightarrow> Some r,
      executed d)"

text \<open>\<open>connection("users").where("id", i).update(...)\<close>: a sparse update of every matching row.\<close>

definition update_users_where_id :: "db \<Rightarrow> nat \<Rightarrow> (user_row \<Rightarrow> user_row) \<Rightarrow> db" where
  "update_users_where_id d i f =
     executed (d\<lparr>users := map (\<lambda>r. if col_id r = i then f r else r) (users d)\<rparr>)"

text \<open>
  \<open>connection.insert({...}).into("users").returning([...])\<close>: the columns the
  insert does not name take their defaults, the id comes from the sequence.
\<close>

definition insert_user ::
  "'j env \<Rightarrow> db \<Rightarrow> string \<Rightarrow> string option \<Rightarrow> nat option \<Rightarrow> nat option \<Rightarrow> string
     \<Rightarrow> user_row list \<times> db" where
  "insert_user E d e ep cid cbid r =
     (let row = (users_defaults E)\<lparr>col_id := next_user_id d, col_email := e,
                  encrypted_password := ep, col_role := r, col_company_id := cid,
                  created_by_id := cbid\<rparr>
      in ([row],
          executed (d\<lparr>users := users d @ [row], next_user_id := Suc (next_user_id d)\<rparr>)))"

text \<open>\<open>returning(["id", "email", "role", "status"])\<close>: the other columns are not in the row handed on.\<close>

definition returning_id_email_role_status :: "user_row \<Rightarrow> user_row" where
  "returning_id_email_role_status r =
     r\<lparr>encrypted_password := None, terms_accepted_at := None, col_company_id := None,
       created_by_id := None, col_notice_email_sent := None, col_login_types := None,
       temp_password := None, temp_password_expire_time := None\<rparr>"

text \<open>\<open>connection("custom_weights").select(...).where({user_id, property_type}).first()\<close>\<close>

definition first_weights_where :: "db \<Rightarrow> nat \<Rightarrow> string \<Rightarrow> weights_row option \<times> db" where
  "first_weights_where d u p =
     (case filter (\<lambda>r. w_user_id r = u \<and> property_type r = p) (custom_weights d) of
        [] \<Rightarrow> None
      | r # _ \<Rightarrow> Some r,
      executed d)"

definition insert_weights :: "db \<Rightarrow> weights_row \<Rightarrow> db" where
  "insert_weights d row = executed (d\<lparr>custom_weights := custom_weights d @ [row]\<rparr>)"

text \<open>\<open>.where({user_id, property_type}).update({...}).returning("*")\<close>\<close>

definition update_weights_where ::
  "db \<Rightarrow> nat \<Rightarrow> string \<Rightarrow> (weights_row \<Rightarrow> weights_row) \<Rightarrow> weights_row list \<times> db" where
  "update_weights_where d u p f =
     (map f (filter (\<lambda>r. w_user_id r = u \<and> property_type r = p) (custom_weights d)),
      executed (d\<lparr>custom_weights :=
         map (\<lambda>r. if w_user_id r = u \<and> property_type r = p then f r else r)
           (custom_weights d)\<rparr>))"

text \<open>\<open>connection("company_partner_permissions").where("company_id", c)\<close>\<close>

definition select_permissions_where_company :: "db \<Rightarrow> nat \<Rightarrow> permission_row list \<times> db" where
  "select_permissions_where_company d c =
     (filter (\<lambda>r. perm_company_id r = c) (company_partner_permissions d), executed d)"

section \<open>The account module\<close>

definition toUser :: "user_row \<Rightarrow> user" where
  "toUser row =
     \<lparr>user_id = col_id row, email = col_email row,
      termsAcceptedAt = terms_accepted_at row, role = col_role row,
      company_id = col_company_id row, status = col_status row,
      notice_email_sent = col_notice_email_sent row,
      login_types = (case col_login_types row of None \<Rightarrow> LTNull | Some t \<Rightarrow> LTText t)\<rparr>"

text \<open>
  \<open>getCompany\<close> of the company module: a blank id is answered with \<open>null\<close>
  without asking the directory; otherwise the directory's answer, or its
  rejection, is handed on.
\<close>

definition getCompany :: "'j env \<Rightarrow> nat option \<Rightarrow> error + company option" where
  "getCompany E companyId =
     (if isBlank E companyId then Inr None else apiGetCompany E companyId)"

text \<open>
  \<open>authenticate(email, password)\<close>, run at time \<open>now\<close>. \<open>Inr None\<close> is the
  returned \<open>false\<close>, \<open>Inr (Some u)\<close> the returned user, \<open>Inl e\<close> a thrown error.
  The company is awaited before the status is looked at, as in the source, so
  a rejected lookup ends the call before any of the later checks.
\<close>

definition authenticate ::
  "'j env \<Rightarrow> int \<Rightarrow> db \<Rightarrow> string \<Rightarrow> string \<Rightarrow> (error + user option) \<times> db" where
  "authenticate E now d email' password =
     (if password = [] then (Inr None, d)
      else
        (case select_users_where_email d (toLowerCase E email') of
           (userRows, d1) \<Rightarrow>
             (case userRows of
                [] \<Rightarrow> (Inl AccountNotFound, d1)
              | userRow # _ \<Rightarrow>
                  (case getCompany E (col_company_id userRow) of
                     Inl rejection \<Rightarrow> (Inl rejection, d1)
                   | Inr company \<Rightarrow>
                       if \<not> statusActive E (col_status userRow)
                       then (Inl AccountDeactivated, d1)
                       else if \<not> companyTermActive E now company
                       then (Inl TenantTermExpired, d1)
                       else
                         (case encrypted_password userRow of
                            None \<Rightarrow> (Inl InvalidCredential, d1)
                          | Some encryptedPassword \<Rightarrow>
                              if encryptedPassword = [] then (Inl InvalidCredential, d1)
                              else if \<not> compare E password encryptedPassword
                              then (Inl InvalidCredential, d1)
                              else (Inr (Some (toUser userRow)), d1))))))"

text \<open>
  \<open>create(email, password, role, company_id, created_by_id)\<close>. A password that
  is missing or empty is stored as no hash. The result is \<open>rows[0]\<close>, which is
  \<open>undefined\<close> (\<open>None\<close>) on an empty list.
\<close>

definition create ::
  "'j env \<Rightarrow> db \<Rightarrow> string \<Rightarrow> string option \<Rightarrow> string \<Rightarrow> nat option \<Rightarrow> nat option
     \<Rightarrow> user option \<times> db" where
  "create E d email' password role' company_id' created_by_id' =
     (let encrypted_password' =
            (case password of
               None \<Rightarrow> None
             | Some p \<Rightarrow> if p = [] then None else Some (hash E p 10));
          roles = [''user'', ''admin'', ''superadmin''];
          acceptableRole = (if role' \<in> set roles then role' else ''user'')
      in case insert_user E d (toLowerCase E email') encrypted_password' company_id'
                created_by_id' acceptableRole of
           (rows, d1) \<Rightarrow>
             (case map toUser (map returning_id_email_role_status rows) of
                [] \<Rightarrow> (None, d1)
              | u # _ \<Rightarrow> (Some u, d1)))"

text \<open>\<open>getUserLoginTypes(user)\<close>: the empty string and \<open>null\<close> are falsy, an array never is.\<close>

definition getUserLoginTypes :: "'j env \<Rightarrow> user option \<Rightarrow> error + string list" where
  "getUserLoginTypes E u =
     (case u of
        None \<Rightarrow> Inr []
      | Some usr \<Rightarrow>
          (case login_types usr of
             LTNull \<Rightarrow> Inr []
           | LTText t \<Rightarrow>
               if t = [] then Inr []
               else (case JSON_parse E t of
                       None \<Rightarrow> Inl SyntaxError
                     | Some j \<Rightarrow> Inr (asArray E j))
           | LTArray xs \<Rightarrow>
               (case JSON_parse E (array_toString xs) of
                  None \<Rightarrow> Inl SyntaxError
                | Some j \<Rightarrow> Inr (asArray E j))))"

text \<open>
  \<open>updateUserLoginTypes(user, loginType)\<close>. With no user the list is empty, the
  tag is pushed and reading \<open>user.id\<close> throws before the query is run.
\<close>

definition updateUserLoginTypes ::
  "'j env \<Rightarrow> db \<Rightarrow> user option \<Rightarrow> string \<Rightarrow> (error + user option) \<times> db" where
  "updateUserLoginTypes E d u loginType =
     (case getUserLoginTypes E u of
        Inl e \<Rightarrow> (Inl e, d)
      | Inr loginTypes \<Rightarrow>
          if loginType \<notin> set loginTypes then
            (let loginTypes' = loginTypes @ [loginType] in
             case u of
               None \<Rightarrow> (Inl TypeError, d)
             | Some usr \<Rightarrow>
                 (Inr (Some (usr\<lparr>login_types := LTArray loginTypes'\<rparr>)),
                  update_users_where_id d (user_id usr)
                    (\<lambda>r. r\<lparr>col_login_types := Some (JSON_stringify E loginTypes')\<rparr>)))
          else (Inr u, d))"

text \<open>\<open>setTemporaryPassword(userId, tempPassword)\<close>, \<open>moment()\<close> being \<open>now\<close>: ten minutes are 600000 ms.\<close>

definition setTemporaryPassword :: "'j env \<Rightarrow> int \<Rightarrow> db \<Rightarrow> nat \<Rightarrow> string \<Rightarrow> db" where
  "setTemporaryPassword E now d userId tempPassword =
     (let hashedTempPassword = hash E tempPassword 10 in
      update_users_where_id d userId
        (\<lambda>r. r\<lparr>temp_password := Some hashedTempPassword,
               temp_password_expire_time := Some (now + 10 * 60000)\<rparr>))"

datatype weights_result = InsertResult | UpdatedRows "weights_row list"

text \<open>\<open>setUsersCustomWeights(user_id, property_type, safety, ..., amenity)\<close>\<close>

definition setUsersCustomWeights ::
  "db \<Rightarrow> nat \<Rightarrow> string \<Rightarrow> int \<Rightarrow> int \<Rightarrow> int \<Rightarrow> int \<Rightarrow> int \<Rightarrow> int \<Rightarrow> weights_result \<times> db" where
  "setUsersCustomWeights d uid ptype sa tr vi ec sp am =
     (case first_weights_where d uid ptype of
        (matchingEntry, d1) \<Rightarrow>
          (case matchingEntry of
             Some _ \<Rightarrow>
               (InsertResult,
                insert_weights d1
                  \<lparr>w_user_id = uid, property_type = ptype, safety = sa, trnsprt = tr,
                   vitalty = vi, economc = ec, sptl_dm = sp, amenity = am\<rparr>)
           | None \<Rightarrow>
               (case update_weights_where d1 uid ptype
                       (\<lambda>r. r\<lparr>safety := sa, trnsprt := tr, vitalty := vi, economc := ec,
                              sptl_dm := sp, amenity := am\<rparr>) of
                  (updatedEntry, d2) \<Rightarrow> (UpdatedRows updatedEntry, d2))))"

text \<open>
  \<open>checkTemporaryPassword(userId, tempPassword)\<close> at time \<open>now\<close>. With no row
  \<open>first()\<close> gives \<open>undefined\<close>, and destructuring it throws a TypeError.
\<close>

definition checkTemporaryPassword ::
  "'j env \<Rightarrow> int \<Rightarrow> db \<Rightarrow> nat \<Rightarrow> string \<Rightarrow> (error + bool) \<times> db" where
  "checkTemporaryPassword E now d userId tempPassword =
     (case first_user_where_id d userId of
        (None, d1) \<Rightarrow> (Inl TypeError, d1)
      | (Some r, d1) \<Rightarrow>
          (case (temp_password r, temp_password_expire_time r) of
             (Some hashedTempPassword, Some expireTime) \<Rightarrow>
               if hashedTempPassword = [] then (Inr False, d1)
               else (Inr (compare E tempPassword hashedTempPassword \<and> now < expireTime), d1)
           | _ \<Rightarrow> (Inr False, d1)))"

text \<open>\<open>changePassword(userId, newPassword)\<close>\<close>

definition changePassword :: "'j env \<Rightarrow> db \<Rightarrow> nat \<Rightarrow> string \<Rightarrow> db" where
  "changePassword E d userId newPassword =
     (let newHashedPassword = hash E newPassword 10 in
      update_users_where_id d userId (\<lambda>r. r\<lparr>encrypted_password := Some newHashedPassword\<rparr>))"

section \<open>The company module\<close>

definition DEFAULT_COMPANY_PARTNER_PERMISSIONS :: "string list" where
  "DEFAULT_COMPANY_PARTNER_PERMISSIONS =
     [''cls'', ''cmbs'', ''cmm'', ''compstak'', ''val'', ''reis'', ''infabode'',
      ''commercialex'', ''enricheddata'', ''retailmarketpoint'', ''databuffet'',
      ''fourtwentyseven'']"

definition getCompanyPartnerPermissions :: "db \<Rightarrow> nat \<Rightarrow> string list \<times> db" where
  "getCompanyPartnerPermissions d companyId =
     (case select_permissions_where_company d companyId of
        (permissions, d1) \<Rightarrow>
          if length permissions = 0 then (DEFAULT_COMPANY_PARTNER_PERMISSIONS, d1)
          else (map partner permissions, d1))"

section \<open>A sample environment and sample data\<close>

text \<open>
  Modelled from the spec: \<open>statusActive\<close> of \<open>helpers/auth\<close>, which is not
  among the sources. The spec has status \<open>active\<close> as the one that lets
  authentication pass.
\<close>

definition statusActive_spec :: "string \<Rightarrow> bool" where
  "statusActive_spec s = (s = ''active'')"

text \<open>
  Modelled from the spec: \<open>companyTermActive\<close> of \<open>helpers/auth\<close>, which is
  not among the sources. The spec has the term valid when the current time is
  before the tenant's end date, and no tenant as valid.
\<close>

definition companyTermActive_spec :: "int \<Rightarrow> company option \<Rightarrow> bool" where
  "companyTermActive_spec now c = (case c of None \<Rightarrow> True | Some co \<Rightarrow> now < end_date co)"

text \<open>
  Modelled from the spec: \<open>isBlank\<close> of \<open>helpers/presence\<close>, which is not among
  the sources. The spec has a null id answered with no tenant.
\<close>

definition isBlank_spec :: "nat option \<Rightarrow> bool" where
  "isBlank_spec i = (i = None)"

text \<open>
  A stand-in for bcrypt that meets its contract (\<open>compare q (hash p n)\<close>
  exactly when \<open>q = p\<close>, and a hash is never empty).
\<close>

definition sample_hash :: "string \<Rightarrow> nat \<Rightarrow> string" where
  "sample_hash p n = CHR ''#'' # p"

definition sample_compare :: "string \<Rightarrow> string \<Rightarrow> bool" where
  "sample_compare q h = (h = CHR ''#'' # q)"

text \<open>
  A stand-in for JSON on arrays of strings that need no escaping:
  \<open>["a","b"]\<close>. The reader accepts exactly such texts; parsed values are
  string lists, which \<open>asArray\<close> hands on.
\<close>

definition sample_stringify :: "string list \<Rightarrow> string" where
  "sample_stringify xs =
     CHR ''['' # array_toString (map (\<lambda>x. CHR 0x22 # x @ [CHR 0x22]) xs) @ [CHR '']'']"

datatype reader_state = Start | Opened | InString | AfterString | AfterComma | Closed

fun sample_read :: "reader_state \<Rightarrow> string list \<Rightarrow> string \<Rightarrow> string \<Rightarrow> string list option" where
  "sample_read Closed acc cur [] = Some (rev acc)"
| "sample_read m acc cur [] = None"
| "sample_read Start acc cur (c # cs) =
     (if c = CHR ''['' then sample_read Opened acc [] cs else None)"
| "sample_read Opened acc cur (c # cs) =
     (if c = CHR '']'' then sample_read Closed acc [] cs
      else if c = CHR 0x22 then sample_read InString acc [] cs else None)"
| "sample_read InString acc cur (c # cs) =
     (if c = CHR 0x22 then sample_read AfterString (rev cur # acc) [] cs
      else sample_read InString acc (c # cur) cs)"
| "sample_read AfterString acc cur (c # cs) =
     (if c = CHR '','' then sample_read AfterComma acc [] cs
      else if c = CHR '']'' then sample_read Closed acc [] cs else None)"
| "sample_read AfterComma acc cur (c # cs) =
     (if c = CHR 0x22 then sample_read InString acc [] cs else None)"
| "sample_read Closed acc cur (c # cs) = None"

definition sample_parse :: "string \<Rightarrow> string list option" where
  "sample_parse t = sample_read Start [] [] t"

text \<open>
  A stand-in for \<open>String.prototype.toLowerCase\<close> that lowers the letters A to Z
  and keeps every other character.
\<close>

definition sample_lower_char :: "char \<Rightarrow> char" where
  "sample_lower_char c =
     (if 65 \<le> (of_char c :: nat) \<and> (of_char c :: nat) \<le> 90
      then char_of ((of_char c :: nat) + 32) else c)"

definition sample_toLowerCase :: "string \<Rightarrow> string" where
  "sample_toLowerCase s = map sample_lower_char s"

definition acme :: company where
  "acme = \<lparr>company_ident = 1, company_name = ''acme'', max_active_users = 5,
           end_date = 1000, notice_date = 900\<rparr>"

definition blank_row :: user_row where
  "blank_row =
     \<lparr>col_id = 0, col_email = [], encrypted_password = None, terms_accepted_at = None,
      col_role = ''user'', col_company_id = None, created_by_id = None,
      col_status = ''active'', col_notice_email_sent = Some False, col_login_types = None,
      temp_password = None, temp_password_expire_time = None\<rparr>"

definition sample_env :: "string list env" where
  "sample_env =
     \<lparr>hash = sample_hash, compare = sample_compare, statusActive = statusActive_spec,
      companyTermActive = companyTermActive_spec, isBlank = isBlank_spec,
      apiGetCompany = (\<lambda>i. if i = Some 1 then Inr (Some acme) else Inr None),
      asArray = (\<lambda>j. j), JSON_parse = sample_parse, JSON_stringify = sample_stringify,
      toLowerCase = sample_toLowerCase, users_defaults = blank_row\<rparr>"

text \<open>The same environment with the company directory out of reach.\<close>

definition offline_env :: "string list env" where
  "offline_env = sample_env\<lparr>apiGetCompany := (\<lambda>i. Inl TenantLookupFailed)\<rparr>"

text \<open>
  Three accounts: \<open>ann\<close> is active under company 1 with password \<open>secret\<close>,
  \<open>bob\<close> is inactive under company 1, \<open>cy\<close> is active with no company and no
  password.
\<close>

definition ann :: user_row where
  "ann = blank_row\<lparr>col_id := 1, col_email := ''ann@x.io'',
           encrypted_password := Some (sample_hash ''secret'' 10),
           col_company_id := Some 1\<rparr>"

definition bob :: user_row where
  "bob = blank_row\<lparr>col_id := 2, col_email := ''bob@x.io'',
           encrypted_password := Some (sample_hash ''hunter2'' 10),
           col_company_id := Some 1, col_status := ''inactive''\<rparr>"

definition cy :: user_row where
  "cy = blank_row\<lparr>col_id := 3, col_email := ''cy@x.io''\<rparr>"

definition sample_db :: db where
  "sample_db =
     \<lparr>users = [ann, bob, cy],
      custom_weights =
        [\<lparr>w_user_id = 1, property_type = ''office'', safety = 1, trnsprt = 2, vitalty = 3,
          economc = 4, sptl_dm = 5, amenity = 6\<rparr>],
      company_partner_permissions = [\<lparr>perm_company_id = 1, partner = ''reis''\<rparr>],
      accesses = 0, next_user_id = 4\<rparr>"

section \<open>Facts about the primitives and the queries\<close>

lemma users_setTemporaryPassword:
  "users (setTemporaryPassword E now1 d uid p) =
     map (\<lambda>r. if col_id r = uid
               then r\<lparr>temp_password := Some (hash E p 10),
                      temp_password_expire_time := Some (now1 + 600000)\<rparr>
               else r) (users d)"
  by (simp add: setTemporaryPassword_def update_users_where_id_def executed_def)

lemma filter_map_preserved:
  assumes "\<And>x. P (g x) = P x"
  shows "filter P (map g xs) = map g (filter P xs)"
  by (induction xs) (simp_all add: assms)

lemma first_user_after_update_any:
  assumes "\<And>r. col_id (f r) = col_id r"
  shows "fst (first_user_where_id (update_users_where_id d i f) j)
           = map_option (\<lambda>r. if col_id r = i then f r else r) (fst (first_user_where_id d j))"
proof -
  have "filter (\<lambda>r. col_id r = j) (map (\<lambda>r. if col_id r = i then f r else r) (users d))
          = map (\<lambda>r. if col_id r = i then f r else r) (filter (\<lambda>r. col_id r = j) (users d))"
    by (rule filter_map_preserved) (simp add: assms)
  then show ?thesis
    by (simp add: first_user_where_id_def update_users_where_id_def executed_def
        split: list.splits)
qed

lemma first_user_after_update:
  assumes "\<And>r. col_id (f r) = col_id r"
  shows "fst (first_user_where_id (update_users_where_id d i f) i)
           = map_option f (fst (first_user_where_id d i))"
proof -
  have "filter (\<lambda>r. col_id r = i) (users (update_users_where_id d i f))
          = map f (filter (\<lambda>r. col_id r = i) (users d))"
    by (simp add: update_users_where_id_def executed_def assms
        filter_map_preserved [where P = "\<lambda>r. col_id r = i"] cong: map_cong)
  then show ?thesis
    by (simp add: first_user_where_id_def split: list.splits)
qed

lemma first_user_stored:
  "\<exists>r \<in> set (users d). col_id r = uid \<Longrightarrow> \<exists>r. fst (first_user_where_id d uid) = Some r"
proof -
  assume "\<exists>r \<in> set (users d). col_id r = uid"
  then have "filter (\<lambda>r. col_id r = uid) (users d) \<noteq> []"
    by (simp add: filter_empty_conv)
  then show ?thesis
    by (cases "filter (\<lambda>r. col_id r = uid) (users d)") (simp_all add: first_user_where_id_def)
qed

lemma checkTemporaryPassword_result:
  "fst (checkTemporaryPassword E now d uid q) =
     (case fst (first_user_where_id d uid) of
        None \<Rightarrow> Inl TypeError
      | Some r \<Rightarrow>
          (case temp_password r of
             None \<Rightarrow> Inr False
           | Some h \<Rightarrow>
               (case temp_password_expire_time r of
                  None \<Rightarrow> Inr False
                | Some t \<Rightarrow> if h = [] then Inr False else Inr (compare E q h \<and> now < t))))"
  by (simp add: checkTemporaryPassword_def split: prod.splits option.splits)

lemma sample_rows:
  "filter (\<lambda>r. col_email r = ''bob@x.io'') (users sample_db) = [bob]"
  "filter (\<lambda>r. col_email r = ''ann@x.io'') (users sample_db) = [ann]"
  by (simp_all add: sample_db_def ann_def bob_def cy_def blank_row_def)

lemma sample_lower:
  "sample_toLowerCase ''Bob@X.io'' = ''bob@x.io''"
  "sample_toLowerCase ''Ann@X.io'' = ''ann@x.io''"
  "sample_toLowerCase ''ANN@x.IO'' = ''ann@x.io''"
  "sample_toLowerCase ''ann@x.io'' = ''ann@x.io''"
  "sample_toLowerCase ''bob@x.io'' = ''bob@x.io''"
  "sample_toLowerCase ''Foo@Bar.com'' = ''foo@bar.com''"
  by code_simp+

lemma lower_sample:
  "toLowerCase sample_env ''Bob@X.io'' = ''bob@x.io''"
  "toLowerCase sample_env ''Ann@X.io'' = ''ann@x.io''"
  "toLowerCase sample_env ''ANN@x.IO'' = ''ann@x.io''"
  "toLowerCase sample_env ''ann@x.io'' = ''ann@x.io''"
  "toLowerCase sample_env ''bob@x.io'' = ''bob@x.io''"
  "toLowerCase sample_env ''Foo@Bar.com'' = ''foo@bar.com''"
  by (simp_all only: sample_env_def env.simps sample_lower)

lemma lower_offline:
  "toLowerCase offline_env ''bob@x.io'' = ''bob@x.io''"
  by (simp add: offline_env_def lower_sample)

section \<open>Authentication\<close>

text \<open>
  C2. For every email, \<open>authenticate\<close> called with an empty secret stops at its
  first statement: it returns \<open>false\<close>, raising no error, and the storage is
  left as it was, access counter included, so no query was run.
\<close>

theorem authenticate_empty_secret:
  "authenticate E now d e [] = (Inr None, d)"
  by (simp add: authenticate_def)

theorem authenticate_empty_secret_witness:
  "authenticate sample_env 500 sample_db ''ann@x.io'' [] = (Inr None, sample_db)
   \<and> accesses (snd (authenticate sample_env 500 sample_db ''ann@x.io'' [])) = 0"
  using authenticate_empty_secret [of sample_env 500 sample_db "''ann@x.io''"]
  by (simp add: sample_db_def)

text \<open>
  The empty secret is not answered with the error \<open>Invalid password\<close> that
  a missing hash or a mismatch raises.
\<close>

theorem authenticate_empty_secret_counterexample:
  "fst (authenticate sample_env 500 sample_db ''ann@x.io'' []) \<noteq> Inl InvalidCredential"
  by (simp add: authenticate_def)

lemma authenticate_reads_once:
  "password \<noteq> [] \<Longrightarrow> snd (authenticate E now d e password) = executed d"
  by (simp add: authenticate_def select_users_where_email_def
      split: list.splits option.splits sum.splits)

text \<open>
  A rejected company lookup ends the call with the rejection, whatever the
  status of the account is.
\<close>

lemma authenticate_lookup_rejected:
  "password \<noteq> [] \<Longrightarrow>
   filter (\<lambda>r. col_email r = toLowerCase E e) (users d) = r # rest \<Longrightarrow>
   getCompany E (col_company_id r) = Inl x \<Longrightarrow>
   fst (authenticate E now d e password) = Inl x"
  by (simp add: authenticate_def select_users_where_email_def)

text \<open>
  C3. With a non-empty secret and a company lookup that answers,
  \<open>authenticate\<close> decides in a fixed order: no account under the lowercased
  email is \<open>AccountNotFound\<close>; a stored account whose status is not active is
  \<open>AccountDeactivated\<close>, whatever the tenant's term, the stored hash and the
  secret are; an active account whose tenant's term is not active is
  \<open>TenantTermExpired\<close>, whatever the stored hash and the secret are; only then
  does the credential decide.
\<close>

theorem authenticate_check_order:
  assumes "password \<noteq> []"
  shows "(filter (\<lambda>r. col_email r = toLowerCase E e) (users d) = [] \<longrightarrow>
            fst (authenticate E now d e password) = Inl AccountNotFound)
       \<and> (\<forall>r rest c.
            filter (\<lambda>r. col_email r = toLowerCase E e) (users d) = r # rest
            \<and> getCompany E (col_company_id r) = Inr c \<longrightarrow>
            (\<not> statusActive E (col_status r) \<longrightarrow>
               fst (authenticate E now d e password) = Inl AccountDeactivated)
          \<and> (statusActive E (col_status r) \<and> \<not> companyTermActive E now c \<longrightarrow>
               fst (authenticate E now d e password) = Inl TenantTermExpired)
          \<and> (statusActive E (col_status r) \<and> companyTermActive E now c \<longrightarrow>
               fst (authenticate E now d e password) =
                 (case encrypted_password r of
                    None \<Rightarrow> Inl InvalidCredential
                  | Some h \<Rightarrow>
                      if h \<noteq> [] \<and> compare E password h then Inr (Some (toUser r))
                      else Inl InvalidCredential)))"
  using assms
  by (auto simp: authenticate_def select_users_where_email_def
      split: list.splits option.splits)

theorem authenticate_check_order_witness:
  "fst (authenticate sample_env 1500 sample_db ''Bob@X.io'' ''hunter2'') = Inl AccountDeactivated
 \<and> fst (authenticate sample_env 1500 sample_db ''Ann@X.io'' ''secret'') = Inl TenantTermExpired
 \<and> fst (authenticate sample_env 500 sample_db ''Ann@X.io'' ''secret'') = Inr (Some (toUser ann))"
proof -
  have b: "filter (\<lambda>r. col_email r = toLowerCase sample_env ''Bob@X.io'') (users sample_db)
             = bob # []"
    by (simp only: lower_sample sample_rows)
  have a: "filter (\<lambda>r. col_email r = toLowerCase sample_env ''Ann@X.io'') (users sample_db)
             = ann # []"
    by (simp only: lower_sample sample_rows)
  have b1: "\<not> statusActive sample_env (col_status bob)"
    by (simp add: sample_env_def statusActive_spec_def bob_def blank_row_def)
  have a1: "statusActive sample_env (col_status ann)"
    by (simp add: sample_env_def statusActive_spec_def ann_def blank_row_def)
  have cb: "getCompany sample_env (col_company_id bob) = Inr (Some acme)"
    by (simp add: getCompany_def sample_env_def isBlank_spec_def bob_def blank_row_def)
  have co: "getCompany sample_env (col_company_id ann) = Inr (Some acme)"
    by (simp add: getCompany_def sample_env_def isBlank_spec_def ann_def blank_row_def)
  have a2: "\<not> companyTermActive sample_env 1500 (Some acme)"
    by (simp add: sample_env_def companyTermActive_spec_def acme_def)
  have a3: "companyTermActive sample_env 500 (Some acme)"
    by (simp add: sample_env_def companyTermActive_spec_def acme_def)
  have a4: "encrypted_password ann = Some ''#secret''"
    by (simp add: ann_def blank_row_def sample_hash_def)
  have a5: "compare sample_env ''secret'' ''#secret''"
    by (simp add: sample_env_def sample_compare_def)
  have ne: "''hunter2'' \<noteq> []" "''secret'' \<noteq> []" by simp_all
  from authenticate_check_order [OF ne(1), of sample_env "''Bob@X.io''" sample_db 1500] b cb b1
  have "fst (authenticate sample_env 1500 sample_db ''Bob@X.io'' ''hunter2'') = Inl AccountDeactivated"
    by blast
  moreover
  from authenticate_check_order [OF ne(2), of sample_env "''Ann@X.io''" sample_db 1500] a co a1 a2
  have "fst (authenticate sample_env 1500 sample_db ''Ann@X.io'' ''secret'') = Inl TenantTermExpired"
    by blast
  moreover
  from authenticate_check_order [OF ne(2), of sample_env "''Ann@X.io''" sample_db 500] a co a1 a3
  have "fst (authenticate sample_env 500 sample_db ''Ann@X.io'' ''secret'') =
          (case encrypted_password ann of
                    None \<Rightarrow> Inl InvalidCredential
                  | Some h \<Rightarrow>
                      if h \<noteq> [] \<and> compare sample_env ''secret'' h then Inr (Some (toUser ann))
                      else Inl InvalidCredential)"
    by blast
  then have "fst (authenticate sample_env 500 sample_db ''Ann@X.io'' ''secret'') = Inr (Some (toUser ann))"
    by (simp add: a4 a5)
  ultimately show ?thesis by simp
qed

text \<open>
  The two conditions cannot be dropped. \<open>bob\<close> is stored with a status that is
  not active, under a tenant whose term has ended at time 1500, and
  \<open>hunter2\<close> is his password. With the empty secret the call returns \<open>false\<close>;
  with the directory out of reach it ends with the directory's rejection.
  Neither is \<open>AccountDeactivated\<close>.
\<close>

theorem authenticate_check_order_counterexample:
  "filter (\<lambda>r. col_email r = toLowerCase sample_env ''bob@x.io'') (users sample_db) = [bob]
 \<and> \<not> statusActive sample_env (col_status bob)
 \<and> \<not> statusActive offline_env (col_status bob)
 \<and> fst (authenticate sample_env 1500 sample_db ''bob@x.io'' []) = Inr None
 \<and> fst (authenticate offline_env 1500 sample_db ''bob@x.io'' ''hunter2'') = Inl TenantLookupFailed"
proof -
  have b: "filter (\<lambda>r. col_email r = toLowerCase sample_env ''bob@x.io'') (users sample_db)
             = [bob]"
    by (simp only: lower_sample sample_rows)
  have b': "filter (\<lambda>r. col_email r = toLowerCase offline_env ''bob@x.io'') (users sample_db)
             = bob # []"
    by (simp only: lower_offline sample_rows)
  have s: "\<not> statusActive sample_env (col_status bob)"
    by (simp add: sample_env_def statusActive_spec_def bob_def blank_row_def)
  have s': "\<not> statusActive offline_env (col_status bob)"
    by (simp add: offline_env_def sample_env_def statusActive_spec_def bob_def blank_row_def)
  have g: "getCompany offline_env (col_company_id bob) = Inl TenantLookupFailed"
    by (simp add: getCompany_def offline_env_def sample_env_def isBlank_spec_def bob_def
        blank_row_def)
  have e: "fst (authenticate sample_env 1500 sample_db ''bob@x.io'' []) = Inr None"
    by (simp add: authenticate_def)
  have "''hunter2'' \<noteq> []" by simp
  then have "fst (authenticate offline_env 1500 sample_db ''bob@x.io'' ''hunter2'')
               = Inl TenantLookupFailed"
    using b' g by (rule authenticate_lookup_rejected)
  with b s s' e show ?thesis by (simp only: simp_thms)
qed

section \<open>Temporary passwords\<close>

text \<open>
  C4. After \<open>setTemporaryPassword\<close> at time \<open>now1\<close> for a stored account, every
  row of that account holds the hash of the plaintext and the expiry
  \<open>now1 + 600000\<close> ms, whatever it held before; and under bcrypt's contract
  \<open>checkTemporaryPassword\<close> at time \<open>now2\<close> returns true exactly when the
  candidate is the plaintext and \<open>now2\<close> is strictly before the expiry.
\<close>

theorem temporary_credential_roundtrip:
  assumes stored: "\<exists>r \<in> set (users d). col_id r = uid"
      and nonempty: "hash E p 10 \<noteq> []"
      and contract: "compare E q (hash E p 10) = (q = p)"
  shows "fst (checkTemporaryPassword E now2 (setTemporaryPassword E now1 d uid p) uid q)
           = Inr (q = p \<and> now2 < now1 + 600000)
       \<and> (\<forall>r \<in> set (users (setTemporaryPassword E now1 d uid p)). col_id r = uid \<longrightarrow>
             temp_password r = Some (hash E p 10)
           \<and> temp_password_expire_time r = Some (now1 + 600000))"
proof -
  let ?f = "\<lambda>r. r\<lparr>temp_password := Some (hash E p 10),
                    temp_password_expire_time := Some (now1 + 10 * 60000)\<rparr>"
  have set_def: "setTemporaryPassword E now1 d uid p = update_users_where_id d uid ?f"
    by (simp add: setTemporaryPassword_def)
  from first_user_stored [OF stored] obtain r where r: "fst (first_user_where_id d uid) = Some r"
    by blast
  have "fst (first_user_where_id (update_users_where_id d uid ?f) uid) = Some (?f r)"
    by (simp add: first_user_after_update r)
  then have "fst (checkTemporaryPassword E now2 (setTemporaryPassword E now1 d uid p) uid q)
          = Inr (compare E q (hash E p 10) \<and> now2 < now1 + 600000)"
    using nonempty by (simp add: checkTemporaryPassword_result set_def)
  moreover have "\<forall>r \<in> set (users (setTemporaryPassword E now1 d uid p)). col_id r = uid \<longrightarrow>
        temp_password r = Some (hash E p 10)
      \<and> temp_password_expire_time r = Some (now1 + 600000)"
  proof (intro ballI impI)
    fix r
    assume "r \<in> set (users (setTemporaryPassword E now1 d uid p))" and id: "col_id r = uid"
    then have "r \<in> (\<lambda>r. if col_id r = uid
               then r\<lparr>temp_password := Some (hash E p 10),
                      temp_password_expire_time := Some (now1 + 600000)\<rparr>
               else r) ` set (users d)"
      by (simp only: users_setTemporaryPassword set_map)
    then obtain r0 where "r = (if col_id r0 = uid
               then r0\<lparr>temp_password := Some (hash E p 10),
                      temp_password_expire_time := Some (now1 + 600000)\<rparr>
               else r0)"
      by blast
    with id show "temp_password r = Some (hash E p 10)
      \<and> temp_password_expire_time r = Some (now1 + 600000)"
      by (cases "col_id r0 = uid") simp_all
  qed
  ultimately show ?thesis using contract by simp
qed


theorem temporary_credential_roundtrip_witness:
  "fst (checkTemporaryPassword sample_env 600002
          (setTemporaryPassword sample_env 3 sample_db 3 ''abc123'') 3 ''abc123'') = Inr True
 \<and> fst (checkTemporaryPassword sample_env 600002
          (setTemporaryPassword sample_env 3 sample_db 3 ''abc123'') 3 ''wrong'') = Inr False
 \<and> fst (checkTemporaryPassword sample_env 600003
          (setTemporaryPassword sample_env 3 sample_db 3 ''abc123'') 3 ''abc123'') = Inr False"
proof -
  have stored: "\<exists>r \<in> set (users sample_db). col_id r = 3"
    by (simp add: sample_db_def ann_def bob_def cy_def blank_row_def)
  have nonempty: "hash sample_env ''abc123'' 10 \<noteq> []"
    by (simp add: sample_env_def sample_hash_def)
  have c1: "compare sample_env ''abc123'' (hash sample_env ''abc123'' 10) = (''abc123'' = ''abc123'')"
    by (simp add: sample_env_def sample_hash_def sample_compare_def)
  have c2: "compare sample_env ''wrong'' (hash sample_env ''abc123'' 10) = (''wrong'' = ''abc123'')"
    by (simp add: sample_env_def sample_hash_def sample_compare_def)
  show ?thesis
    using temporary_credential_roundtrip [OF stored nonempty c1, of 600002 3]
          temporary_credential_roundtrip [OF stored nonempty c2, of 600002 3]
          temporary_credential_roundtrip [OF stored nonempty c1, of 600003 3]
    by simp
qed

lemma checkTemporaryPassword_no_row:
  "fst (first_user_where_id d uid) = None \<Longrightarrow>
   fst (checkTemporaryPassword E now d uid q) = Inl TypeError"
  by (simp add: checkTemporaryPassword_result)

lemma checkTemporaryPassword_missing_field:
  "fst (first_user_where_id d uid) = Some r \<Longrightarrow>
   temp_password r = None \<or> temp_password_expire_time r = None \<Longrightarrow>
   fst (checkTemporaryPassword E now d uid q) = Inr False"
  by (auto simp: checkTemporaryPassword_result split: option.splits)

text \<open>
  C5. \<open>checkTemporaryPassword\<close> returns false when the row of the account
  lacks the hash or the expiry (\<open>checkTemporaryPassword_missing_field\<close>). For an
  id with no row it does not: in \<open>sample_db\<close> no account has id 9, and the
  call raises a TypeError.
\<close>

theorem checkTemporaryPassword_unknown_id_raises:
  "fst (checkTemporaryPassword sample_env 5 sample_db 9 ''abc123'') = Inl TypeError"
  by (simp add: checkTemporaryPassword_def first_user_where_id_def sample_db_def
      ann_def bob_def cy_def blank_row_def)

section \<open>Changing the password\<close>

lemma users_changePassword:
  "users (changePassword E d uid p) =
     map (\<lambda>r. if col_id r = uid then r\<lparr>encrypted_password := Some (hash E p 10)\<rparr> else r)
       (users d)"
  by (simp add: changePassword_def update_users_where_id_def executed_def)

lemma changePassword_other_tables:
  "custom_weights (changePassword E d uid p) = custom_weights d"
  "company_partner_permissions (changePassword E d uid p) = company_partner_permissions d"
  by (simp_all add: changePassword_def update_users_where_id_def executed_def)

lemma changePassword_keeps_temporary:
  "fst (checkTemporaryPassword E now (changePassword E d uid p) i q)
     = fst (checkTemporaryPassword E now d i q)"
proof -
  let ?f = "\<lambda>r. r\<lparr>encrypted_password := Some (hash E p 10)\<rparr>"
  have cp: "changePassword E d uid p = update_users_where_id d uid ?f"
    by (simp add: changePassword_def)
  have "fst (first_user_where_id (changePassword E d uid p) i)
          = map_option (\<lambda>r. if col_id r = uid then ?f r else r) (fst (first_user_where_id d i))"
    unfolding cp by (rule first_user_after_update_any) simp
  then show ?thesis
    by (cases "fst (first_user_where_id d i)")
       (simp_all add: checkTemporaryPassword_result split: option.splits)
qed

text \<open>
  C7. \<open>changePassword\<close> writes the new hash into the rows of the account and
  nothing else: with the hash column blanked the table is the same before and
  after, in particular the temporary hash and its expiry of every row, the
  other tables are untouched, and \<open>checkTemporaryPassword\<close> answers after the
  change what it answered before, for every account, candidate and time.
\<close>

theorem changePassword_frame:
  "users (changePassword E d uid p) =
     map (\<lambda>r. if col_id r = uid then r\<lparr>encrypted_password := Some (hash E p 10)\<rparr> else r)
       (users d)
 \<and> map (\<lambda>r. r\<lparr>encrypted_password := None\<rparr>) (users (changePassword E d uid p))
     = map (\<lambda>r. r\<lparr>encrypted_password := None\<rparr>) (users d)
 \<and> map temp_password (users (changePassword E d uid p)) = map temp_password (users d)
 \<and> map temp_password_expire_time (users (changePassword E d uid p))
     = map temp_password_expire_time (users d)
 \<and> custom_weights (changePassword E d uid p) = custom_weights d
 \<and> company_partner_permissions (changePassword E d uid p) = company_partner_permissions d
 \<and> fst (checkTemporaryPassword E now (changePassword E d uid p) i q)
     = fst (checkTemporaryPassword E now d i q)"
proof -
  have "map (\<lambda>r. r\<lparr>encrypted_password := None\<rparr>) (users (changePassword E d uid p))
     = map (\<lambda>r. r\<lparr>encrypted_password := None\<rparr>) (users d)"
    by (simp add: users_changePassword)
  moreover have "map temp_password (users (changePassword E d uid p)) = map temp_password (users d)"
    by (simp add: users_changePassword)
  moreover have "map temp_password_expire_time (users (changePassword E d uid p))
     = map temp_password_expire_time (users d)"
    by (simp add: users_changePassword)
  ultimately show ?thesis
    by (simp only: users_changePassword [symmetric] changePassword_other_tables
        changePassword_keeps_temporary simp_thms)
qed

section \<open>Partner permissions\<close>

text \<open>
  C6. \<open>getCompanyPartnerPermissions\<close> returns the default list when the
  company has no permission row, and otherwise the partners of the company's
  rows, in table order and nothing more. The default list has 12 distinct
  entries, among them \<open>cls\<close>, \<open>cmbs\<close> and \<open>fourtwentyseven\<close>.
\<close>

theorem partner_permissions_default_or_own:
  "(filter (\<lambda>r. perm_company_id r = c) (company_partner_permissions d) = [] \<longrightarrow>
      fst (getCompanyPartnerPermissions d c) = DEFAULT_COMPANY_PARTNER_PERMISSIONS)
 \<and> (filter (\<lambda>r. perm_company_id r = c) (company_partner_permissions d) \<noteq> [] \<longrightarrow>
      fst (getCompanyPartnerPermissions d c) =
        map partner (filter (\<lambda>r. perm_company_id r = c) (company_partner_permissions d)))
 \<and> length DEFAULT_COMPANY_PARTNER_PERMISSIONS = 12
 \<and> distinct DEFAULT_COMPANY_PARTNER_PERMISSIONS
 \<and> {''cls'', ''cmbs'', ''fourtwentyseven''} \<subseteq> set DEFAULT_COMPANY_PARTNER_PERMISSIONS"
proof -
  have "length DEFAULT_COMPANY_PARTNER_PERMISSIONS = 12"
    by (simp add: DEFAULT_COMPANY_PARTNER_PERMISSIONS_def)
  moreover have "distinct DEFAULT_COMPANY_PARTNER_PERMISSIONS"
    by (simp add: DEFAULT_COMPANY_PARTNER_PERMISSIONS_def)
  moreover have "{''cls'', ''cmbs'', ''fourtwentyseven''} \<subseteq> set DEFAULT_COMPANY_PARTNER_PERMISSIONS"
    by (simp add: DEFAULT_COMPANY_PARTNER_PERMISSIONS_def)
  moreover have "filter (\<lambda>r. perm_company_id r = c) (company_partner_permissions d) = [] \<longrightarrow>
      fst (getCompanyPartnerPermissions d c) = DEFAULT_COMPANY_PARTNER_PERMISSIONS"
    by (simp add: getCompanyPartnerPermissions_def select_permissions_where_company_def)
  moreover have "filter (\<lambda>r. perm_company_id r = c) (company_partner_permissions d) \<noteq> [] \<longrightarrow>
      fst (getCompanyPartnerPermissions d c) =
        map partner (filter (\<lambda>r. perm_company_id r = c) (company_partner_permissions d))"
    by (simp add: getCompanyPartnerPermissions_def select_permissions_where_company_def)
  ultimately show ?thesis by blast
qed

theorem partner_permissions_default_or_own_witness:
  "fst (getCompanyPartnerPermissions sample_db 2) = DEFAULT_COMPANY_PARTNER_PERMISSIONS
 \<and> fst (getCompanyPartnerPermissions sample_db 1) = [''reis'']"
proof -
  have none: "filter (\<lambda>r. perm_company_id r = 2) (company_partner_permissions sample_db) = []"
    by (simp add: sample_db_def)
  have one: "filter (\<lambda>r. perm_company_id r = 1) (company_partner_permissions sample_db)
               = [\<lparr>perm_company_id = 1, partner = ''reis''\<rparr>]"
    by (simp add: sample_db_def)
  from partner_permissions_default_or_own [of 2 sample_db] none
  have "fst (getCompanyPartnerPermissions sample_db 2) = DEFAULT_COMPANY_PARTNER_PERMISSIONS"
    by blast
  moreover
  from partner_permissions_default_or_own [of 1 sample_db] one
  have "fst (getCompanyPartnerPermissions sample_db 1) = [''reis'']"
    by simp
  ultimately show ?thesis by simp
qed

section \<open>Creating accounts\<close>

lemma create_result:
  "create E d e pw r cid cbid =
     (let row = (users_defaults E)\<lparr>col_id := next_user_id d, col_email := toLowerCase E e,
                  encrypted_password :=
                    (case pw of None \<Rightarrow> None
                     | Some p \<Rightarrow> if p = [] then None else Some (hash E p 10)),
                  col_role := (if r \<in> {''user'', ''admin'', ''superadmin''} then r else ''user''),
                  col_company_id := cid, created_by_id := cbid\<rparr>
      in (Some (toUser (returning_id_email_role_status row)),
          executed (d\<lparr>users := users d @ [row], next_user_id := Suc (next_user_id d)\<rparr>)))"
  by (simp add: create_def insert_user_def Let_def)

lemma users_create:
  "users (snd (create E d e pw r cid cbid)) =
     users d @ [(users_defaults E)\<lparr>col_id := next_user_id d, col_email := toLowerCase E e,
                  encrypted_password :=
                    (case pw of None \<Rightarrow> None
                     | Some p \<Rightarrow> if p = [] then None else Some (hash E p 10)),
                  col_role := (if r \<in> {''user'', ''admin'', ''superadmin''} then r else ''user''),
                  col_company_id := cid, created_by_id := cbid\<rparr>]"
  by (simp add: create_result Let_def executed_def)

lemma returned_create:
  "map_option role (fst (create E d e pw r cid cbid)) =
     Some (if r \<in> {''user'', ''admin'', ''superadmin''} then r else ''user'')"
  "map_option email (fst (create E d e pw r cid cbid)) = Some (toLowerCase E e)"
  by (simp_all add: create_result Let_def toUser_def returning_id_email_role_status_def)

text \<open>
  C9. For every role argument \<open>create\<close> appends one row whose role is one of
  \<open>user\<close>, \<open>admin\<close>, \<open>superadmin\<close>: the argument itself when it is one of the
  three, and \<open>user\<close> otherwise, with no error. The returned account carries
  the same role.
\<close>

theorem create_clamps_role:
  "\<exists>row. users (snd (create E d e pw r cid cbid)) = users d @ [row]
     \<and> col_role row \<in> {''user'', ''admin'', ''superadmin''}
     \<and> (r \<in> {''user'', ''admin'', ''superadmin''} \<longrightarrow> col_role row = r)
     \<and> (r \<notin> {''user'', ''admin'', ''superadmin''} \<longrightarrow> col_role row = ''user'')
     \<and> map_option role (fst (create E d e pw r cid cbid)) = Some (col_role row)"
proof (cases "r \<in> {''user'', ''admin'', ''superadmin''}")
  case True
  then show ?thesis by (simp only: users_create returned_create) auto
next
  case False
  then show ?thesis by (simp only: users_create returned_create) auto
qed

theorem create_clamps_role_witness:
  "col_role (last (users (snd (create sample_env sample_db ''Dee@X.io'' (Some ''pw'')
      ''hacker'' None None)))) = ''user''
 \<and> col_role (last (users (snd (create sample_env sample_db ''Dee@X.io'' (Some ''pw'')
      ''admin'' None None)))) = ''admin''"
proof -
  have h: "''hacker'' \<notin> {''user'', ''admin'', ''superadmin''}" by simp
  have a: "''admin'' \<in> {''user'', ''admin'', ''superadmin''}" by simp
  from create_clamps_role [of sample_env sample_db "''Dee@X.io''" "Some ''pw''" "''hacker''" None None] h
  have "col_role (last (users (snd (create sample_env sample_db ''Dee@X.io'' (Some ''pw'')
      ''hacker'' None None)))) = ''user''"
    by force
  moreover
  from create_clamps_role [of sample_env sample_db "''Dee@X.io''" "Some ''pw''" "''admin''" None None] a
  have "col_role (last (users (snd (create sample_env sample_db ''Dee@X.io'' (Some ''pw'')
      ''admin'' None None)))) = ''admin''"
    by force
  ultimately show ?thesis by simp
qed

text \<open>
  C10. Two emails with the same lowercase form are not told apart by
  \<open>authenticate\<close>: same result or error, same storage afterwards. As
  lowercasing a lowercase string changes nothing, an email and its lowercase
  form are such a pair. \<open>create\<close> stores the email lowercased and returns it
  lowercased.
\<close>

theorem email_case_normalised:
  "(toLowerCase E e1 = toLowerCase E e2 \<longrightarrow>
      authenticate E now d e1 p = authenticate E now d e2 p)
 \<and> (toLowerCase E (toLowerCase E e) = toLowerCase E e \<longrightarrow>
      authenticate E now d e p = authenticate E now d (toLowerCase E e) p)
 \<and> (\<exists>row. users (snd (create E d e pw r cid cbid)) = users d @ [row]
        \<and> col_email row = toLowerCase E e)
 \<and> map_option email (fst (create E d e pw r cid cbid)) = Some (toLowerCase E e)"
proof (intro conjI impI)
  assume "toLowerCase E e1 = toLowerCase E e2"
  then show "authenticate E now d e1 p = authenticate E now d e2 p"
    by (simp add: authenticate_def)
next
  assume "toLowerCase E (toLowerCase E e) = toLowerCase E e"
  then show "authenticate E now d e p = authenticate E now d (toLowerCase E e) p"
    by (simp add: authenticate_def)
next
  show "\<exists>row. users (snd (create E d e pw r cid cbid)) = users d @ [row]
        \<and> col_email row = toLowerCase E e"
    by (simp only: users_create) simp
next
  show "map_option email (fst (create E d e pw r cid cbid)) = Some (toLowerCase E e)"
    by (rule returned_create)
qed

theorem email_case_normalised_witness:
  "authenticate sample_env 500 sample_db ''Ann@X.io'' ''secret''
     = authenticate sample_env 500 sample_db ''ANN@x.IO'' ''secret''
 \<and> authenticate sample_env 500 sample_db ''Ann@X.io'' ''secret''
     = authenticate sample_env 500 sample_db ''ann@x.io'' ''secret''
 \<and> fst (authenticate sample_env 500 sample_db ''ANN@x.IO'' ''secret'') = Inr (Some (toUser ann))
 \<and> map_option email (fst (create sample_env sample_db ''Foo@Bar.com'' None ''user'' None None))
     = Some ''foo@bar.com''"
proof -
  have v: "toLowerCase sample_env ''Ann@X.io'' = toLowerCase sample_env ''ANN@x.IO''"
    by (simp only: lower_sample)
  have i: "toLowerCase sample_env (toLowerCase sample_env ''Ann@X.io'')
             = toLowerCase sample_env ''Ann@X.io''"
    by (simp only: lower_sample)
  have 1: "authenticate sample_env 500 sample_db ''Ann@X.io'' ''secret''
     = authenticate sample_env 500 sample_db ''ANN@x.IO'' ''secret''"
    using email_case_normalised [of sample_env "''Ann@X.io''" "''ANN@x.IO''" 500 sample_db
            "''secret''"] v
    by blast
  have 2: "authenticate sample_env 500 sample_db ''Ann@X.io'' ''secret''
     = authenticate sample_env 500 sample_db (toLowerCase sample_env ''Ann@X.io'') ''secret''"
    using email_case_normalised [of sample_env _ _ 500 sample_db "''secret''" "''Ann@X.io''"] i
    by blast
  have 3: "fst (authenticate sample_env 500 sample_db ''Ann@X.io'' ''secret'')
             = Inr (Some (toUser ann))"
    by (simp add: authenticate_def select_users_where_email_def lower_sample sample_rows
        getCompany_def sample_env_def isBlank_spec_def statusActive_spec_def
        companyTermActive_spec_def sample_compare_def sample_hash_def acme_def ann_def
        blank_row_def sample_lower)
  have 4: "map_option email
             (fst (create sample_env sample_db ''Foo@Bar.com'' None ''user'' None None))
     = Some (toLowerCase sample_env ''Foo@Bar.com'')"
    using email_case_normalised [of sample_env _ _ 500 sample_db "''secret''" "''Foo@Bar.com''"
            None "''user''" None None]
    by blast
  from 1 2 3 4 show ?thesis by (simp only: lower_sample)
qed

section \<open>Custom weights\<close>

text \<open>
  What the two branches of \<open>setUsersCustomWeights\<close> do: with no row under the
  key the update matches nothing and the table stays as it is; with a row
  under the key a further row is appended.
\<close>

lemma map_if_none_matches:
  "filter P xs = [] \<Longrightarrow> map (\<lambda>r. if P r then f r else r) xs = xs"
  by (induction xs) (simp_all split: if_splits)

lemma setUsersCustomWeights_no_match:
  assumes "filter (\<lambda>r. w_user_id r = u \<and> property_type r = t) (custom_weights d) = []"
  shows "fst (setUsersCustomWeights d u t sa tr vi ec sp am) = UpdatedRows []"
    and "custom_weights (snd (setUsersCustomWeights d u t sa tr vi ec sp am)) = custom_weights d"
  using assms
  by (simp_all add: setUsersCustomWeights_def first_weights_where_def update_weights_where_def
      executed_def map_if_none_matches)

lemma setUsersCustomWeights_match:
  assumes "filter (\<lambda>r. w_user_id r = u \<and> property_type r = t) (custom_weights d) \<noteq> []"
  shows "fst (setUsersCustomWeights d u t sa tr vi ec sp am) = InsertResult"
    and "custom_weights (snd (setUsersCustomWeights d u t sa tr vi ec sp am)) =
           custom_weights d @
             [\<lparr>w_user_id = u, property_type = t, safety = sa, trnsprt = tr, vitalty = vi,
               economc = ec, sptl_dm = sp, amenity = am\<rparr>]"
  using assms
  by (simp_all add: setUsersCustomWeights_def first_weights_where_def insert_weights_def
      executed_def split: list.splits)

text \<open>
  C1. \<open>setUsersCustomWeights\<close> is not an upsert. In \<open>sample_db\<close> there is no
  profile for user 2 and \<open>retail\<close>, and the call creates none; there is one
  profile for user 1 and \<open>office\<close>, and after the call there are two, the old
  one not overwritten.
\<close>

theorem setUsersCustomWeights_branches_swapped:
  "custom_weights (snd (setUsersCustomWeights sample_db 2 ''retail'' 9 9 9 9 9 9))
     = custom_weights sample_db
 \<and> filter (\<lambda>r. w_user_id r = 2 \<and> property_type r = ''retail'')
      (custom_weights (snd (setUsersCustomWeights sample_db 2 ''retail'' 9 9 9 9 9 9))) = []
 \<and> filter (\<lambda>r. w_user_id r = 1 \<and> property_type r = ''office'')
      (custom_weights (snd (setUsersCustomWeights sample_db 1 ''office'' 9 9 9 9 9 9)))
     = [\<lparr>w_user_id = 1, property_type = ''office'', safety = 1, trnsprt = 2, vitalty = 3,
          economc = 4, sptl_dm = 5, amenity = 6\<rparr>,
        \<lparr>w_user_id = 1, property_type = ''office'', safety = 9, trnsprt = 9, vitalty = 9,
          economc = 9, sptl_dm = 9, amenity = 9\<rparr>]"
  by (simp add: setUsersCustomWeights_def first_weights_where_def insert_weights_def
      update_weights_where_def executed_def sample_db_def)

section \<open>Login types\<close>

text \<open>
  On an account whose login types can be read: a tag that is present leaves
  account and storage as they are, with no query at all; a tag that is absent
  is appended, the JSON text of the longer list is written to the rows of the
  account, and the returned account holds the longer list as an array. An
  account read again from storage then has the tag, and a further call with it
  changes nothing.
\<close>

lemma getUserLoginTypes_stored:
  "getUserLoginTypes E (Some (toUser r)) =
     (case col_login_types r of
        None \<Rightarrow> Inr []
      | Some t \<Rightarrow>
          if t = [] then Inr []
          else (case JSON_parse E t of None \<Rightarrow> Inl SyntaxError | Some j \<Rightarrow> Inr (asArray E j)))"
  by (simp add: getUserLoginTypes_def toUser_def split: option.splits)

lemma updateUserLoginTypes_present:
  "getUserLoginTypes E (Some u) = Inr xs \<Longrightarrow> t \<in> set xs \<Longrightarrow>
   updateUserLoginTypes E d (Some u) t = (Inr (Some u), d)"
  by (simp add: updateUserLoginTypes_def)

lemma updateUserLoginTypes_absent:
  "getUserLoginTypes E (Some u) = Inr xs \<Longrightarrow> t \<notin> set xs \<Longrightarrow>
   updateUserLoginTypes E d (Some u) t =
     (Inr (Some (u\<lparr>login_types := LTArray (xs @ [t])\<rparr>)),
      update_users_where_id d (user_id u)
        (\<lambda>r. r\<lparr>col_login_types := Some (JSON_stringify E (xs @ [t]))\<rparr>))"
  by (simp add: updateUserLoginTypes_def Let_def)

lemma updateUserLoginTypes_on_array:
  "JSON_parse E (array_toString ys) = None \<Longrightarrow>
   updateUserLoginTypes E d (Some (u\<lparr>login_types := LTArray ys\<rparr>)) t = (Inl SyntaxError, d)"
  by (simp add: updateUserLoginTypes_def getUserLoginTypes_def)

lemma updateUserLoginTypes_reread:
  assumes "getUserLoginTypes E (Some (toUser r)) = Inr xs" and "t \<notin> set xs"
      and "JSON_stringify E (xs @ [t]) \<noteq> []"
      and "JSON_parse E (JSON_stringify E (xs @ [t])) = Some j" and "asArray E j = xs @ [t]"
      and "fst (first_user_where_id d (col_id r)) = Some r"
  shows "\<exists>r'. fst (first_user_where_id
                    (snd (updateUserLoginTypes E d (Some (toUser r)) t)) (col_id r)) = Some r'
           \<and> getUserLoginTypes E (Some (toUser r')) = Inr (xs @ [t])
           \<and> updateUserLoginTypes E d' (Some (toUser r')) t = (Inr (Some (toUser r')), d')"
proof -
  let ?f = "\<lambda>r. r\<lparr>col_login_types := Some (JSON_stringify E (xs @ [t]))\<rparr>"
  have id: "user_id (toUser r) = col_id r" by (simp add: toUser_def)
  have up: "snd (updateUserLoginTypes E d (Some (toUser r)) t)
              = update_users_where_id d (col_id r) ?f"
    using assms(1,2) by (simp add: updateUserLoginTypes_absent id)
  have f: "fst (first_user_where_id (update_users_where_id d (col_id r) ?f) (col_id r))
             = Some (?f r)"
    by (simp add: first_user_after_update assms(6))
  have g: "getUserLoginTypes E (Some (toUser (?f r))) = Inr (xs @ [t])"
    using assms(3,4,5) by (simp add: getUserLoginTypes_stored)
  have "updateUserLoginTypes E d' (Some (toUser (?f r))) t = (Inr (Some (toUser (?f r))), d')"
    by (rule updateUserLoginTypes_present [OF g]) simp
  with f g show ?thesis unfolding up by blast
qed

text \<open>
  C8. Calling \<open>updateUserLoginTypes\<close> twice with the same tag, the second time
  with the account the first call returned, does not return that account
  unchanged: the returned account holds the array \<open>["password"]\<close> where
  \<open>getUserLoginTypes\<close> expects JSON text, \<open>JSON.parse\<close> is handed the text
  \<open>password\<close>, and the second call raises a SyntaxError (writing nothing).
\<close>

theorem updateUserLoginTypes_returned_account_raises:
  "fst (updateUserLoginTypes sample_env sample_db (Some (toUser cy)) ''password'')
     = Inr (Some ((toUser cy)\<lparr>login_types := LTArray [''password'']\<rparr>))
 \<and> updateUserLoginTypes sample_env
      (snd (updateUserLoginTypes sample_env sample_db (Some (toUser cy)) ''password''))
      (Some ((toUser cy)\<lparr>login_types := LTArray [''password'']\<rparr>)) ''password''
     = (Inl SyntaxError,
        snd (updateUserLoginTypes sample_env sample_db (Some (toUser cy)) ''password''))"
proof -
  have g: "getUserLoginTypes sample_env (Some (toUser cy)) = Inr []"
    by (simp add: getUserLoginTypes_stored cy_def blank_row_def)
  have p: "JSON_parse sample_env (array_toString [''password'']) = None"
    by (simp add: sample_env_def sample_parse_def)
  have "fst (updateUserLoginTypes sample_env sample_db (Some (toUser cy)) ''password'')
     = Inr (Some ((toUser cy)\<lparr>login_types := LTArray [''password'']\<rparr>))"
    using updateUserLoginTypes_absent [OF g, of "''password''" sample_db] by simp
  then show ?thesis
    by (simp add: updateUserLoginTypes_on_array [OF p])
qed

end
